theory Spec2Isabelle
  imports Main "HOL-Library.Word"
begin

section \<open>The machine the examples run on\<close>

text \<open>
  The examples are freestanding C programs for Linux on x86-64. The C types are machine
  words: \<open>char\<close> is a byte, \<open>int\<close> has 32 bits, \<open>long\<close>, \<open>unsigned long\<close> and pointers
  have 64 bits. Memory is a flat array of bytes indexed by 64-bit addresses; address
  arithmetic wraps around as the hardware's does.
\<close>

type_synonym u8 = "8 word"
type_synonym int32 = "32 word"
type_synonym u64 = "64 word"
type_synonym memory = "u64 \<Rightarrow> u8"

text \<open>
  The registers that carry a system call: \<open>rax\<close> holds the operation code and receives
  the result, \<open>rdi\<close>, \<open>rsi\<close> and \<open>rdx\<close> hold the first three arguments.
\<close>

record regs =
  rax :: u64
  rdi :: u64
  rsi :: u64
  rdx :: u64

text \<open>
  What the process can change outside its registers: its memory, and the bytes that have
  become visible on each stream. A handle with no entry identifies no stream.
\<close>

record world =
  memory :: memory
  streams :: "int32 \<rightharpoonup> u8 list"

text \<open>
  The kernel is not part of the repository: it is a parameter of every function that
  traps. On a trap it either resumes the process, with a result for \<open>rax\<close>, or halts it
  with the status the process handed over.
\<close>

datatype trap = Resume u64 world | Halt int32 world

type_synonym kernel = "regs \<Rightarrow> world \<Rightarrow> trap"

text \<open>
  What a C function can do: return a value, end the process, run into undefined
  behaviour (\<open>__builtin_unreachable()\<close> reached, signed overflow), or loop forever.
\<close>

datatype 'a outcome = Returned 'a world | Exited int32 world | Undefined | Diverged

fun seq :: "'a outcome \<Rightarrow> ('a \<Rightarrow> world \<Rightarrow> 'b outcome) \<Rightarrow> 'b outcome" where
  "seq (Returned v w) f = f v w"
| "seq (Exited st w) f = Exited st w"
| "seq Undefined f = Undefined"
| "seq Diverged f = Diverged"

fun returns :: "'a outcome \<Rightarrow> bool" where
  "returns (Returned v w) = True"
| "returns (Exited st w) = False"
| "returns Undefined = False"
| "returns Diverged = False"

text \<open>The \<open>syscall\<close> instruction: the kernel sees the registers; its result lands in \<open>rax\<close>.\<close>

definition syscall_insn :: "kernel \<Rightarrow> regs \<Rightarrow> world \<Rightarrow> regs outcome" where
  "syscall_insn k r w =
     (case k r w of
        Resume res w' \<Rightarrow> Returned (r\<lparr>rax := res\<rparr>) w'
      | Halt st w' \<Rightarrow> Exited st w')"

text \<open>
  \<open>movl\<close> into a 32-bit register clears the upper half of the 64-bit register. An \<open>int\<close>
  operand that a constraint binds to a register (\<open>"D" (fd)\<close>) is a 32-bit operand: it
  is loaded into the 32-bit register (\<open>edi\<close>) in the same way, with no conversion to
  \<open>long\<close>.
\<close>

definition movl :: "int32 \<Rightarrow> u64" where
  "movl v = ucast v"

definition bytes_at :: "memory \<Rightarrow> u64 \<Rightarrow> nat \<Rightarrow> u8 list" where
  "bytes_at m p n = map (\<lambda>i. m (p + of_nat i)) [0..<n]"

section \<open>hello_world.c\<close>

text \<open>
  Functions keep their names in the source. \<open>exit\<close> and \<open>main\<close> occur in several files
  and \<open>write\<close> is a keyword of Isabelle: these carry the name of their file as a suffix.
\<close>

definition SYS_WRITE :: u64 where
  "SYS_WRITE = 1"

definition SYS_EXIT :: u64 where
  "SYS_EXIT = 60"

definition STDOUT_FILENO :: int32 where
  "STDOUT_FILENO = 1"

definition syscall :: "kernel \<Rightarrow> u64 \<Rightarrow> u64 \<Rightarrow> u64 \<Rightarrow> u64 \<Rightarrow> world \<Rightarrow> u64 outcome" where
  "syscall k number arg1 arg2 arg3 w =
     seq (syscall_insn k \<lparr>rax = number, rdi = arg1, rsi = arg2, rdx = arg3\<rparr> w)
       (\<lambda>r w'. Returned (rax r) w')"

definition write_hello_world :: "kernel \<Rightarrow> int32 \<Rightarrow> u64 \<Rightarrow> u64 \<Rightarrow> world \<Rightarrow> u64 outcome" where
  "write_hello_world k fd buf count w = syscall k SYS_WRITE (scast fd) buf count w"

definition exit_hello_world :: "kernel \<Rightarrow> int32 \<Rightarrow> world \<Rightarrow> unit outcome" where
  "exit_hello_world k status w =
     seq (syscall k SYS_EXIT (scast status) 0 0 w) (\<lambda>_ _. Undefined)"

partial_function (option) strlen_loop :: "memory \<Rightarrow> u64 \<Rightarrow> u64 \<Rightarrow> u64 option" where
  "strlen_loop m s len = (if m (s + len) \<noteq> 0 then strlen_loop m s (len + 1) else Some len)"

definition strlen :: "memory \<Rightarrow> u64 \<Rightarrow> u64 option" where
  "strlen m s = strlen_loop m s 0"

definition print :: "kernel \<Rightarrow> u64 \<Rightarrow> world \<Rightarrow> unit outcome" where
  "print k str w =
     (case strlen (memory w) str of
        None \<Rightarrow> Diverged
      | Some n \<Rightarrow> seq (write_hello_world k STDOUT_FILENO str n w) (\<lambda>_ w'. Returned () w'))"

text \<open>\<open>lit\<close> is the address at which the linker places the literal \<open>"Hello World!\n"\<close>.\<close>

definition main_hello_world :: "kernel \<Rightarrow> u64 \<Rightarrow> world \<Rightarrow> int32 outcome" where
  "main_hello_world k lit w =
     seq (print k lit w) (\<lambda>_ w1.
     seq (exit_hello_world k 0 w1) (\<lambda>_ w2.
     Returned 0 w2))"

section \<open>printf_stub.c\<close>

definition sys_write :: "kernel \<Rightarrow> int32 \<Rightarrow> u64 \<Rightarrow> u64 \<Rightarrow> world \<Rightarrow> u64 outcome" where
  "sys_write k fd buf count w =
     seq (syscall_insn k \<lparr>rax = SYS_WRITE, rdi = movl fd, rsi = buf, rdx = count\<rparr> w)
       (\<lambda>r w'. Returned (rax r) w')"

partial_function (option) my_strlen_loop :: "memory \<Rightarrow> u64 \<Rightarrow> u64 \<Rightarrow> u64 option" where
  "my_strlen_loop m s len =
     (if m (s + len) \<noteq> 0 then my_strlen_loop m s (len + 1) else Some len)"

definition my_strlen :: "memory \<Rightarrow> u64 \<Rightarrow> u64 option" where
  "my_strlen m s = my_strlen_loop m s 0"

text \<open>
  The variadic arguments are the list \<open>args\<close>; the body never reads them. The
  \<open>unsigned long\<close> that \<open>my_strlen\<close> returns is converted to the \<open>int\<close> result.
\<close>

definition printf :: "kernel \<Rightarrow> u64 \<Rightarrow> u64 list \<Rightarrow> world \<Rightarrow> int32 outcome" where
  "printf k format args w =
     (case my_strlen (memory w) format of
        None \<Rightarrow> Diverged
      | Some n \<Rightarrow>
          seq (sys_write k 1 format n w) (\<lambda>_ w'.
            (case my_strlen (memory w') format of
               None \<Rightarrow> Diverged
             | Some n' \<Rightarrow> Returned (ucast n') w')))"

section \<open>simple_exit.c\<close>

text \<open>
  The assembly sets \<open>edi\<close> and \<open>eax\<close> only; \<open>r\<close> is the register file on entry to the
  block, which the C source does not determine.
\<close>

definition exit_simple_exit :: "kernel \<Rightarrow> int32 \<Rightarrow> regs \<Rightarrow> world \<Rightarrow> unit outcome" where
  "exit_simple_exit k status r w =
     seq (syscall_insn k (r\<lparr>rdi := movl status, rax := movl 60\<rparr>) w) (\<lambda>_ _. Undefined)"

definition main_simple_exit :: "kernel \<Rightarrow> regs \<Rightarrow> world \<Rightarrow> int32 outcome" where
  "main_simple_exit k r w = seq (exit_simple_exit k 42 r w) (\<lambda>_ w'. Returned 0 w')"

section \<open>working_hello.c\<close>

definition write_syscall :: "kernel \<Rightarrow> int32 \<Rightarrow> u64 \<Rightarrow> int32 \<Rightarrow> regs \<Rightarrow> world \<Rightarrow> int32 outcome" where
  "write_syscall k fd buf count r w =
     seq (syscall_insn k (r\<lparr>rax := movl 1, rdi := movl fd, rsi := buf, rdx := movl count\<rparr>) w)
       (\<lambda>r' w'. Returned (ucast (rax r')) w')"

definition exit_syscall :: "kernel \<Rightarrow> int32 \<Rightarrow> regs \<Rightarrow> world \<Rightarrow> unit outcome" where
  "exit_syscall k code r w =
     seq (syscall_insn k (r\<lparr>rax := movl 60, rdi := movl code\<rparr>) w) (\<lambda>_ w'. Returned () w')"

text \<open>
  \<open>hello_msg\<close> is the address of the array of that name; \<open>r1\<close> and \<open>r2\<close> are the register
  files on entry to the two assembly blocks.
\<close>

definition main_working_hello :: "kernel \<Rightarrow> u64 \<Rightarrow> regs \<Rightarrow> regs \<Rightarrow> world \<Rightarrow> int32 outcome" where
  "main_working_hello k hello_msg r1 r2 w =
     seq (write_syscall k 1 hello_msg 13 r1 w) (\<lambda>_ w1.
     seq (exit_syscall k 0 r2 w1) (\<lambda>_ w2.
     Returned 0 w2))"

section \<open>inline_hello.c\<close>

text \<open>
  One assembly block of 64-bit moves and two traps; \<open>hello_msg\<close> is the address of the
  label after the second trap, where the thirteen bytes of the message lie. Were the
  second trap to resume, the processor would run into those bytes.
\<close>

definition main_inline_hello :: "kernel \<Rightarrow> u64 \<Rightarrow> world \<Rightarrow> int32 outcome" where
  "main_inline_hello k hello_msg w =
     seq (syscall_insn k \<lparr>rax = 1, rdi = 1, rsi = hello_msg, rdx = 13\<rparr> w) (\<lambda>r w1.
     seq (syscall_insn k (r\<lparr>rax := 60, rdi := 0\<rparr>) w1) (\<lambda>_ _. Undefined))"

section \<open>simple_test.c\<close>

definition global_number :: int32 where
  "global_number = 100"

text \<open>Addition of \<open>int\<close>s is undefined where the sum does not fit.\<close>

definition add_two_numbers :: "int32 \<Rightarrow> int32 \<Rightarrow> int32 option" where
  "add_two_numbers a b =
     (if - (2 ^ 31) \<le> sint a + sint b \<and> sint a + sint b < 2 ^ 31 then Some (a + b) else None)"

text \<open>C's \<open>%\<close> truncates towards zero: the remainder has the sign of the dividend.\<close>

definition c_rem :: "int32 \<Rightarrow> int32 \<Rightarrow> int32" where
  "c_rem a b = word_of_int (sgn (sint a) * (\<bar>sint a\<bar> mod \<bar>sint b\<bar>))"

definition main_simple_test :: "world \<Rightarrow> int32 outcome" where
  "main_simple_test w =
     (case add_two_numbers global_number 42 of
        None \<Rightarrow> Undefined
      | Some result \<Rightarrow> Returned (c_rem result 256) w)"

section \<open>The platform behind the trap\<close>

text \<open>
  Modelled from the spec: the kernel's exit operation, which is not in the repository.
  Section 4.4: the kernel destroys the calling process's execution context as part of the
  call. The operation code is 60; the status is the \<open>int\<close> in the low half of \<open>rdi\<close>.
\<close>

definition terminates_on_exit :: "kernel \<Rightarrow> bool" where
  "terminates_on_exit k \<longleftrightarrow> (\<forall>r w. rax r = 60 \<longrightarrow> k r w = Halt (ucast (rdi r)) w)"

text \<open>
  Modelled from the spec: the environment that launched the process, which is not in the
  repository. Section 6: the exit status is an 8-bit value surfaced to whatever launched
  the process; larger values are truncated by the environment.
\<close>

definition observed_status :: "int32 \<Rightarrow> int" where
  "observed_status st = uint (ucast st :: u8)"

text \<open>The bytes \<open>bs\<close> become visible on the stream \<open>fd\<close>, after those already there.\<close>

definition emit :: "world \<Rightarrow> int32 \<Rightarrow> u8 list \<Rightarrow> world" where
  "emit w fd bs =
     (case streams w fd of
        None \<Rightarrow> w
      | Some old \<Rightarrow> w\<lparr>streams := (streams w)(fd \<mapsto> old @ bs)\<rparr>)"

text \<open>
  Modelled from the spec: a kernel whose streams accept the full write, which is not in
  the repository. Section 8: the destination stream is known to accept the full write
  (e.g., a test standard-output capture). The operation code is 1, the handle is the
  \<open>int\<close> in the low half of \<open>rdi\<close>, \<open>rsi\<close> is the address and \<open>rdx\<close> the count; a count
  that is negative as a signed word cannot come back as a count of bytes.
\<close>

definition accepts_writes :: "kernel \<Rightarrow> bool" where
  "accepts_writes k \<longleftrightarrow>
     (\<forall>r w. rax r = 1 \<longrightarrow> streams w (ucast (rdi r)) \<noteq> None \<longrightarrow> 0 \<le>s rdx r \<longrightarrow>
        k r w = Resume (rdx r)
                  (emit w (ucast (rdi r)) (bytes_at (memory w) (rsi r) (unat (rdx r)))))"

text \<open>
  Modelled from the spec: the result convention of the kernel's write operation, which
  is not in the repository. Sections 3 and 4.3: a result in the reserved negative range
  is a negated error code; a non-negative result means that many bytes were transferred,
  which may be fewer than the count.
\<close>

definition write_convention :: "kernel \<Rightarrow> bool" where
  "write_convention k \<longleftrightarrow>
     (\<forall>r w. rax r = 1 \<longrightarrow>
        (case k r w of
           Halt st w' \<Rightarrow> False
         | Resume res w' \<Rightarrow>
             if res <s 0 then - 4095 \<le>s res \<and> w' = w
             else unat res \<le> unat (rdx r) \<and> streams w (ucast (rdi r)) \<noteq> None \<and>
                  w' = emit w (ucast (rdi r)) (bytes_at (memory w) (rsi r) (unat res))))"

text \<open>
  Modelled from the spec: the least that every write operation does, whatever its
  result (the kernel is not in the repository). Section 4.1: control returns to the
  caller after the kernel operation completes; section 4.3: the effect of a write is on
  the surrounding environment, not on the program's own memory.
\<close>

definition write_returns :: "kernel \<Rightarrow> bool" where
  "write_returns k \<longleftrightarrow>
     (\<forall>r w. rax r = 1 \<longrightarrow>
        (case k r w of Halt st w' \<Rightarrow> False | Resume res w' \<Rightarrow> memory w' = memory w))"

text \<open>
  Modelled from the spec: the entry glue around \<open>main\<close>, which is not in the repository.
  Section 1: an external collaborator that supplies the entry point and consumes the
  return value; section 8: the program terminates with the value it computed.
\<close>

definition start :: "kernel \<Rightarrow> (world \<Rightarrow> int32 outcome) \<Rightarrow> world \<Rightarrow> unit outcome" where
  "start k entry w = seq (entry w) (\<lambda>v w'. exit_hello_world k v w')"

text \<open>
  A null-terminated sequence: the bytes \<open>bs\<close> lie at \<open>p\<close>, none of them is zero, and the
  byte after them is.
\<close>

definition c_string :: "memory \<Rightarrow> u64 \<Rightarrow> u8 list \<Rightarrow> bool" where
  "c_string m p bs \<longleftrightarrow>
     bytes_at m p (length bs) = bs \<and> 0 \<notin> set bs \<and> m (p + of_nat (length bs)) = 0"

fun returned_value :: "'a outcome \<Rightarrow> 'a option" where
  "returned_value (Returned v w) = Some v"
| "returned_value (Exited st w) = None"
| "returned_value Undefined = None"
| "returned_value Diverged = None"

subsection \<open>A kernel and a process image to run the examples on\<close>

text \<open>
  Modelled from the spec: one kernel that meets the contracts above (the kernel is not in
  the repository). It ends the process on operation 60; on operation 1 it rejects a
  handle that identifies no stream (\<open>EBADF\<close>, 9) and a count that is negative as a signed
  word (\<open>EINVAL\<close>, 22), and otherwise transfers the whole request; it knows no other
  operation (\<open>ENOSYS\<close>, 38).
\<close>

definition capture :: kernel where
  "capture r w =
     (if rax r = 60 then Halt (ucast (rdi r)) w
      else if rax r = 1 then
        (if streams w (ucast (rdi r)) = None then Resume (- 9) w
         else if rdx r <s 0 then Resume (- 22) w
         else Resume (rdx r)
                (emit w (ucast (rdi r)) (bytes_at (memory w) (rsi r) (unat (rdx r)))))
      else Resume (- 38) w)"

text \<open>
  Modelled from the spec: a kernel that transfers fewer bytes than requested (the kernel
  is not in the repository). Section 4.3: the bytes transferred may be fewer than the
  count; section 7: a partial transfer is not an error. This one transfers one byte of
  every request that asks for more, and is like the kernel above otherwise.
\<close>

definition one_byte :: kernel where
  "one_byte r w =
     (if rax r = 60 then Halt (ucast (rdi r)) w
      else if rax r = 1 then
        (if streams w (ucast (rdi r)) = None then Resume (- 9) w
         else if rdx r = 0 then Resume 0 w
         else Resume 1 (emit w (ucast (rdi r)) (bytes_at (memory w) (rsi r) 1)))
      else Resume (- 38) w)"

definition hello :: "u8 list" where
  "hello = map (\<lambda>c. of_nat (of_char c)) (''Hello World!'' @ [CHR 0x0A])"

fun store_bytes :: "u64 \<Rightarrow> u8 list \<Rightarrow> memory \<Rightarrow> memory" where
  "store_bytes p [] m = m"
| "store_bytes p (b # bs) m = store_bytes (p + 1) bs (m(p := b))"

text \<open>
  A process image: the message and its terminator at \<open>0x402000\<close>, the format
  \<open>"%d\n"\<close> and its terminator at \<open>0x402010\<close>, zero elsewhere; standard input, output
  and error are open and nothing has been written yet.
\<close>

definition boot :: world where
  "boot = \<lparr>memory = store_bytes 0x402010 [37, 100, 10, 0]
                      (store_bytes 0x402000 (hello @ [0]) (\<lambda>_. 0)),
           streams = [0 \<mapsto> [], 1 \<mapsto> [], 2 \<mapsto> []]\<rparr>"

definition junk :: regs where
  "junk = \<lparr>rax = 7, rdi = 7, rsi = 7, rdx = 7\<rparr>"

text \<open>A string of \<open>2\<^sup>3\<^sup>1\<close> bytes at address 0: every byte is 1, but the one at \<open>2\<^sup>3\<^sup>1\<close>.\<close>

definition long_image :: world where
  "long_image = \<lparr>memory = (\<lambda>a. if a = 2147483648 then 0 else 1), streams = [1 \<mapsto> []]\<rparr>"

text \<open>The same image with every stream closed: each write is rejected.\<close>

definition closed :: world where
  "closed = boot\<lparr>streams := Map.empty\<rparr>"

section \<open>Facts about the platform and the machine words\<close>

lemma capture_terminates: "terminates_on_exit capture"
  by (simp add: terminates_on_exit_def capture_def)

lemma capture_accepts: "accepts_writes capture"
  by (auto simp add: accepts_writes_def capture_def word_sle_eq word_sless_alt)

lemma capture_convention: "write_convention capture"
  by (simp add: write_convention_def capture_def word_sle_eq word_sless_alt)

lemma hello_val: "hello = [72, 101, 108, 108, 111, 32, 87, 111, 114, 108, 100, 33, 10]"
  by (simp add: hello_def)

lemma boot_hello: "c_string (memory boot) 0x402000 hello"
  by (simp add: c_string_def boot_def hello_val bytes_at_def upt_rec)

lemma ucast_scast_int [simp]: "(ucast (scast (s::int32) :: u64) :: int32) = s"
  by (rule bit_word_eqI) (auto simp add: bit_simps)

lemma ucast_movl [simp]: "(ucast (movl s) :: int32) = s"
  unfolding movl_def by (rule bit_word_eqI) (auto simp add: bit_simps)

lemma movl_numeral [simp]: "movl 60 = 60" "movl 1 = 1" "movl 0 = 0" "movl 13 = 13"
  by (simp_all add: movl_def)

lemma observed_status_mod: "observed_status s = sint s mod 256"
proof -
  have "uint (ucast s :: u8) = uint s mod 2 ^ 8"
    by (simp add: unsigned_ucast_eq take_bit_eq_mod)
  also have "uint s = sint s mod 2 ^ 32"
    by (simp add: uint_sint take_bit_eq_mod)
  also have "sint s mod 2 ^ 32 mod 2 ^ 8 = sint s mod 2 ^ 8"
    by (rule mod_mod_cancel) simp
  finally show ?thesis by (simp add: observed_status_def)
qed

lemma emit_open:
  "streams w fd = Some old \<Longrightarrow> emit w fd bs = w\<lparr>streams := (streams w)(fd \<mapsto> old @ bs)\<rparr>"
  by (simp add: emit_def)

lemma emit_nothing: "emit w fd [] = w"
  by (simp add: emit_def map_upd_triv split: option.split)

lemma memory_emit [simp]: "memory (emit w fd bs) = memory w"
  by (simp add: emit_def split: option.split)

lemma capture_returns: "write_returns capture"
  by (simp add: write_returns_def capture_def)

lemma convention_returns:
  assumes "write_convention k"
  shows "write_returns k"
  unfolding write_returns_def
proof (intro allI impI)
  fix r :: regs and w :: world
  assume op: "rax r = 1"
  show "case k r w of Halt st w' \<Rightarrow> False | Resume res w' \<Rightarrow> memory w' = memory w"
    using assms [unfolded write_convention_def, rule_format, OF op, of w]
    by (cases "k r w") (auto split: if_splits)
qed

lemma trap_write_accepted:
  assumes "accepts_writes k" "rax r = 1" "streams w (ucast (rdi r)) = Some old" "0 \<le>s rdx r"
  shows "syscall_insn k r w =
           Returned (r\<lparr>rax := rdx r\<rparr>)
             (w\<lparr>streams := (streams w)(ucast (rdi r) \<mapsto>
                  old @ bytes_at (memory w) (rsi r) (unat (rdx r)))\<rparr>)"
  using assms by (simp add: accepts_writes_def syscall_insn_def emit_open)

lemma trap_exit:
  assumes "terminates_on_exit k" "rax r = 60"
  shows "syscall_insn k r w = Exited (ucast (rdi r)) w"
  using assms by (simp add: terminates_on_exit_def syscall_insn_def)

lemma hello_length: "length hello = 13"
  by (simp add: hello_val)

lemma hello_nonzero: "0 \<notin> set hello"
  by (simp add: hello_val)

lemma sle_13: "(0::u64) \<le>s 13"
  by (simp add: word_sle_eq)

lemma sle_0: "(0::u64) \<le>s 0"
  by (simp add: word_sle_eq)

lemma boot_bytes: "bytes_at (memory boot) 0x402000 13 = hello"
  by (simp add: boot_def hello_val bytes_at_def upt_rec)

lemma boot_stdout: "streams boot 1 = Some []"
  by (simp add: boot_def)

lemma of_nat_nonneg:
  assumes "L < 2 ^ 63"
  shows "(0::u64) \<le>s of_nat L"
proof -
  have "sint (of_nat L :: u64) = int L"
    using assms by (simp add: signed_of_nat signed_take_bit_int_eq_self)
  then show ?thesis by (simp add: word_sle_eq)
qed

lemma unat_of_nat_63:
  assumes "L < 2 ^ 63"
  shows "unat (of_nat L :: u64) = L"
  using assms by (simp add: unat_of_nat)

lemma ucast_of_nat_int: "(ucast (of_nat L :: u64) :: int32) = of_nat L"
  by (rule bit_word_eqI) (auto simp add: bit_simps)

lemma ucast_1 [simp]: "(ucast (1 :: u64) :: int32) = 1"
  by simp

lemma sys_write_returns:
  assumes "write_returns k"
  shows "\<exists>res w'. sys_write k fd buf n w = Returned res w' \<and> memory w' = memory w"
proof -
  let ?r = "\<lparr>rax = 1, rdi = movl fd, rsi = buf, rdx = n\<rparr>"
  from assms have "case k ?r w of Halt st w' \<Rightarrow> False | Resume res w' \<Rightarrow> memory w' = memory w"
    by (simp add: write_returns_def)
  then show ?thesis
    by (cases "k ?r w") (simp_all add: sys_write_def syscall_insn_def SYS_WRITE_def)
qed

section \<open>The Length Primitive\<close>

lemma strlen_loop_first_zero:
  assumes nz: "\<forall>i<L. m (s + of_nat i) \<noteq> 0" and z: "m (s + of_nat L) = 0"
  shows "i \<le> L \<Longrightarrow> strlen_loop m s (of_nat i) = Some (of_nat L)"
proof (induction "L - i" arbitrary: i)
  case 0
  then have "i = L" by simp
  with z show ?case by (subst strlen_loop.simps) simp
next
  case (Suc d)
  then have lt: "i < L" and d: "d = L - Suc i" and le: "Suc i \<le> L" by simp_all
  from nz lt have "m (s + of_nat i) \<noteq> 0" by simp
  then have "strlen_loop m s (of_nat i) = strlen_loop m s (of_nat i + 1)"
    by (subst strlen_loop.simps) simp
  also have "\<dots> = strlen_loop m s (of_nat (Suc i))" by (simp add: add.commute)
  also have "\<dots> = Some (of_nat L)" using Suc.hyps(1) [OF d le] .
  finally show ?case .
qed

lemma my_strlen_loop_first_zero:
  assumes nz: "\<forall>i<L. m (s + of_nat i) \<noteq> 0" and z: "m (s + of_nat L) = 0"
  shows "i \<le> L \<Longrightarrow> my_strlen_loop m s (of_nat i) = Some (of_nat L)"
proof (induction "L - i" arbitrary: i)
  case 0
  then have "i = L" by simp
  with z show ?case by (subst my_strlen_loop.simps) simp
next
  case (Suc d)
  then have lt: "i < L" and d: "d = L - Suc i" and le: "Suc i \<le> L" by simp_all
  from nz lt have "m (s + of_nat i) \<noteq> 0" by simp
  then have "my_strlen_loop m s (of_nat i) = my_strlen_loop m s (of_nat i + 1)"
    by (subst my_strlen_loop.simps) simp
  also have "\<dots> = my_strlen_loop m s (of_nat (Suc i))" by (simp add: add.commute)
  also have "\<dots> = Some (of_nat L)" using Suc.hyps(1) [OF d le] .
  finally show ?case .
qed

text \<open>
  The index of the first zero byte is below \<open>2\<^sup>6\<^sup>4\<close>: were it not, the address of the
  zero byte would also be the address of an earlier, nonzero byte.
\<close>

lemma first_zero_bound:
  fixes s :: u64
  assumes nz: "\<forall>i<L. m (s + of_nat i) \<noteq> 0" and z: "m (s + of_nat L) = 0"
  shows "L < 2 ^ 64"
proof (rule ccontr)
  assume "\<not> L < 2 ^ 64"
  then have ge: "2 ^ 64 \<le> L" by simp
  have "(of_nat (L - 2 ^ 64) :: u64) = of_nat L"
    using ge by (simp add: word_of_nat_eq_iff take_bit_eq_mod le_mod_geq)
  moreover have "L - 2 ^ 64 < L" using ge by simp
  ultimately show False using nz z by metis
qed

lemma c_string_nonzero:
  assumes "c_string m p bs"
  shows "\<forall>i<length bs. m (p + of_nat i) \<noteq> 0"
proof (intro allI impI)
  fix i assume i: "i < length bs"
  from assms have eq: "bytes_at m p (length bs) = bs" and nz: "0 \<notin> set bs"
    by (simp_all add: c_string_def)
  have "bytes_at m p (length bs) ! i = m (p + of_nat i)"
    using i by (simp add: bytes_at_def)
  with eq have "bs ! i = m (p + of_nat i)" by simp
  moreover from nz i have "bs ! i \<noteq> 0" by (auto simp add: in_set_conv_nth)
  ultimately show "m (p + of_nat i) \<noteq> 0" by simp
qed

lemma c_string_terminated: "c_string m p bs \<Longrightarrow> m (p + of_nat (length bs)) = 0"
  by (simp add: c_string_def)

lemma c_string_length:
  assumes "c_string m p bs"
  shows "length bs < 2 ^ 64"
proof -
  have nz: "\<forall>i<length bs. m (p + of_nat i) \<noteq> 0" by (rule c_string_nonzero [OF assms])
  have z: "m (p + of_nat (length bs)) = 0" by (rule c_string_terminated [OF assms])
  show ?thesis by (rule first_zero_bound [of "length bs" m p, OF nz z])
qed

lemma strlen_c_string:
  assumes "c_string m p bs"
  shows "strlen m p = Some (of_nat (length bs))"
proof -
  have nz: "\<forall>i<length bs. m (p + of_nat i) \<noteq> 0" by (rule c_string_nonzero [OF assms])
  have z: "m (p + of_nat (length bs)) = 0" by (rule c_string_terminated [OF assms])
  show ?thesis
    using strlen_loop_first_zero [of "length bs" m p 0, OF nz z] by (simp add: strlen_def)
qed

lemma my_strlen_c_string:
  assumes "c_string m p bs"
  shows "my_strlen m p = Some (of_nat (length bs))"
proof -
  have nz: "\<forall>i<length bs. m (p + of_nat i) \<noteq> 0" by (rule c_string_nonzero [OF assms])
  have z: "m (p + of_nat (length bs)) = 0" by (rule c_string_terminated [OF assms])
  show ?thesis
    using my_strlen_loop_first_zero [of "length bs" m p 0, OF nz z] by (simp add: my_strlen_def)
qed

lemma hello_c_string:
  assumes "bytes_at m p 13 = hello" "m (p + 13) = 0"
  shows "c_string m p hello"
  using assms by (simp add: c_string_def hello_length hello_nonzero)

lemma boot_format: "c_string (memory boot) 0x402010 [37, 100, 10]"
  by (simp add: c_string_def boot_def hello_val bytes_at_def upt_rec)

text \<open>
  C2. For every byte sequence whose first zero byte is at index \<open>L\<close> (the \<open>L\<close> bytes before
  it are nonzero), \<open>strlen\<close> of hello_world.c and \<open>my_strlen\<close> of printf_stub.c return,
  and return exactly \<open>L\<close>: the number of bytes before the terminator, which is 0 when the
  first byte is zero.
\<close>

theorem strlen_counts_to_first_zero:
  assumes "c_string m s bs"
  shows "strlen m s = Some (of_nat (length bs))
       \<and> my_strlen m s = Some (of_nat (length bs))
       \<and> unat (of_nat (length bs) :: u64) = length bs"
  using assms c_string_length [OF assms]
  by (simp add: strlen_c_string my_strlen_c_string unat_of_nat)

theorem strlen_counts_to_first_zero_witness:
  "c_string (memory boot) 0x402000 hello \<and> strlen (memory boot) 0x402000 = Some 13
     \<and> my_strlen (memory boot) 0x402000 = Some 13
     \<and> c_string (memory boot) 0 [] \<and> strlen (memory boot) 0 = Some 0"
  using strlen_counts_to_first_zero [OF boot_hello]
    strlen_counts_to_first_zero [of "memory boot" 0 "[]"]
  by (simp add: hello_val c_string_def bytes_at_def boot_def)

section \<open>The Termination Primitive\<close>

lemma exit_hello_world_halts:
  "terminates_on_exit k \<Longrightarrow> exit_hello_world k s w = Exited s w"
  by (simp add: terminates_on_exit_def exit_hello_world_def syscall_def syscall_insn_def
      SYS_EXIT_def)

lemma exit_simple_exit_halts:
  "terminates_on_exit k \<Longrightarrow> exit_simple_exit k s r w = Exited s w"
  by (simp add: terminates_on_exit_def exit_simple_exit_def syscall_insn_def)

lemma exit_syscall_halts:
  "terminates_on_exit k \<Longrightarrow> exit_syscall k s r w = Exited s w"
  by (simp add: terminates_on_exit_def exit_syscall_def syscall_insn_def)

text \<open>
  C1. On a kernel whose exit operation ends the process, no variant of the Termination
  Primitive (\<open>exit\<close> of hello_world.c, \<open>exit\<close> of simple_exit.c, \<open>exit_syscall\<close> of
  working_hello.c) returns to its caller, for any status; whatever code \<open>rest\<close> follows
  the call is never run.
\<close>

theorem exit_never_returns:
  assumes "terminates_on_exit k"
  shows "(\<not> returns (exit_hello_world k s w) \<and> seq (exit_hello_world k s w) rest = Exited s w)
       \<and> (\<not> returns (exit_simple_exit k s r w) \<and> seq (exit_simple_exit k s r w) rest = Exited s w)
       \<and> (\<not> returns (exit_syscall k s r w) \<and> seq (exit_syscall k s r w) rest = Exited s w)"
  using assms by (simp add: exit_hello_world_halts exit_simple_exit_halts exit_syscall_halts)

theorem exit_never_returns_witness:
  "terminates_on_exit capture
     \<and> \<not> returns (exit_hello_world capture 42 boot)
     \<and> seq (exit_hello_world capture 42 boot) (\<lambda>_ w. Returned (0 :: int32) w) = Exited 42 boot
     \<and> \<not> returns (exit_simple_exit capture 42 junk boot)
     \<and> seq (exit_simple_exit capture 42 junk boot) (\<lambda>_ w. Returned (0 :: int32) w) = Exited 42 boot
     \<and> \<not> returns (exit_syscall capture 0 junk boot)
     \<and> seq (exit_syscall capture 0 junk boot) (\<lambda>_ w. Returned (0 :: int32) w) = Exited 0 boot"
  using exit_never_returns [OF capture_terminates, of 42 boot "\<lambda>_ w. Returned (0 :: int32) w" junk]
    exit_never_returns [OF capture_terminates, of 0 boot "\<lambda>_ w. Returned (0 :: int32) w" junk]
  by (simp add: capture_terminates exit_hello_world_def exit_simple_exit_def exit_syscall_def
      syscall_def syscall_insn_def SYS_EXIT_def capture_def junk_def)

text \<open>
  C5. On a kernel whose exit operation ends the process, every variant of the
  Termination Primitive hands the status \<open>s\<close> to the kernel unchanged. The status the
  environment observes is \<open>s mod 256\<close>: \<open>s\<close> itself for \<open>s\<close> in [0, 255], and 44 for 300.
\<close>

theorem exit_status_observed:
  assumes "terminates_on_exit k"
  shows "exit_hello_world k s w = Exited s w
       \<and> exit_simple_exit k s r w = Exited s w
       \<and> exit_syscall k s r w = Exited s w
       \<and> observed_status s = sint s mod 256
       \<and> (0 \<le> sint s \<and> sint s \<le> 255 \<longrightarrow> observed_status s = sint s)
       \<and> observed_status 300 = 44"
  using assms
  by (simp add: exit_hello_world_halts exit_simple_exit_halts exit_syscall_halts
      observed_status_mod)

theorem exit_status_observed_witness:
  "terminates_on_exit capture
     \<and> exit_hello_world capture 300 boot = Exited 300 boot
     \<and> exit_simple_exit capture 300 junk boot = Exited 300 boot
     \<and> exit_syscall capture 300 junk boot = Exited 300 boot
     \<and> observed_status 300 = 44
     \<and> 0 \<le> sint (42 :: int32) \<and> sint (42 :: int32) \<le> 255 \<and> observed_status 42 = 42
     \<and> observed_status (- 1) = 255"
  using exit_status_observed [OF capture_terminates, of 300 boot junk]
    exit_status_observed [OF capture_terminates, of 42 boot junk]
    exit_status_observed [OF capture_terminates, of "- 1" boot junk]
  by (simp add: capture_terminates)

text \<open>
  Two remarks on the variants. The two \<open>exit\<close> functions mark the point after the trap as
  unreachable, so they return on no kernel at all; \<open>exit_syscall\<close> has no such mark and
  would return if the kernel resumed it.
\<close>

lemma exit_marked_unreachable:
  "\<not> returns (exit_hello_world k s w) \<and> \<not> returns (exit_simple_exit k s r w)"
  by (simp add: exit_hello_world_def exit_simple_exit_def syscall_def syscall_insn_def
      split: trap.split)

lemma exit_syscall_unmarked:
  "k (r\<lparr>rax := 60, rdi := movl s\<rparr>) w = Resume res w' \<Longrightarrow> exit_syscall k s r w = Returned () w'"
  by (simp add: exit_syscall_def syscall_insn_def)

lemma main_simple_exit_halts:
  "terminates_on_exit k \<Longrightarrow> main_simple_exit k r w = Exited 42 w"
  by (simp add: main_simple_exit_def exit_simple_exit_halts)

section \<open>simple_test.c from entry to exit\<close>

text \<open>
  C7. The program of simple_test.c computes \<open>add_two_numbers(global_number, 42)\<close> with
  \<open>global_number = 100\<close> and returns the result modulo 256, which is 142, without a
  single trap: nothing is written. Terminated with that value, the process has exit
  status 142.
\<close>

theorem simple_test_status:
  assumes "terminates_on_exit k"
  shows "main_simple_test w = Returned 142 w
       \<and> start k main_simple_test w = Exited 142 w
       \<and> observed_status 142 = 142"
  using assms
  by (simp add: start_def main_simple_test_def add_two_numbers_def global_number_def c_rem_def
      exit_hello_world_halts observed_status_def)

theorem simple_test_status_witness:
  "terminates_on_exit capture \<and> main_simple_test boot = Returned 142 boot
     \<and> start capture main_simple_test boot = Exited 142 boot"
  using simple_test_status [OF capture_terminates, of boot]
  by (simp add: capture_terminates)

section \<open>The Output Primitive\<close>

lemma movl_nonneg: "0 \<le>s fd \<Longrightarrow> movl fd = scast fd"
proof -
  assume "0 \<le>s fd"
  then have "\<not> sint fd < 0"
    by (simp add: word_sle_eq)
  then have top: "\<not> bit fd 31"
    using bit_last_iff [of fd] by simp
  have hi: "\<not> bit fd n" if "31 \<le> n" for n
  proof
    assume b: "bit fd n"
    then have "n < 32" using bit_imp_le_length [of fd n] by simp
    with that have "n = 31" by simp
    with b top show False by simp
  qed
  show ?thesis
    unfolding movl_def by (intro bit_word_eqI) (auto simp add: bit_simps min_def top hi)
qed

text \<open>
  C3. For every handle, address and count, the Output Primitive returns exactly what the
  Syscall Trampoline returns for the operation code 1, the handle, the address and the
  count: the kernel's answer to that request, with no check and no other computation.
  \<open>write\<close> of hello_world.c calls the trampoline, which receives the handle as a \<open>long\<close>;
  \<open>sys_write\<close> of printf_stub.c traps by itself with the handle in \<open>edi\<close>, the very
  request the trampoline makes for that register content, which for every non-negative
  handle is the one \<open>write\<close> makes.
\<close>

theorem write_delegates:
  "write_hello_world k fd buf n w = syscall k 1 (scast fd) buf n w
   \<and> sys_write k fd buf n w = syscall k 1 (movl fd) buf n w
   \<and> (0 \<le>s fd \<longrightarrow> sys_write k fd buf n w = syscall k 1 (scast fd) buf n w)
   \<and> syscall k 1 a buf n w =
       (case k \<lparr>rax = 1, rdi = a, rsi = buf, rdx = n\<rparr> w of
          Resume res w' \<Rightarrow> Returned res w'
        | Halt st w' \<Rightarrow> Exited st w')"
proof -
  have "sys_write k fd buf n w = syscall k 1 (movl fd) buf n w"
    by (simp add: sys_write_def syscall_def SYS_WRITE_def)
  then show ?thesis
    by (simp add: write_hello_world_def syscall_def syscall_insn_def SYS_WRITE_def movl_nonneg
        split: trap.split)
qed

theorem write_delegates_witness:
  "(0 :: int32) \<le>s 1
     \<and> write_hello_world capture 1 0x402000 13 boot = syscall capture 1 1 0x402000 13 boot
     \<and> sys_write capture 1 0x402000 13 boot = syscall capture 1 1 0x402000 13 boot
     \<and> syscall capture 1 1 0x402000 13 boot
          = Returned 13 (boot\<lparr>streams := (streams boot)(1 \<mapsto> hello)\<rparr>)"
proof -
  have p: "(0 :: int32) \<le>s 1" by (simp add: word_sle_eq)
  have e: "emit boot 1 (bytes_at (memory boot) 0x402000 13)
      = boot\<lparr>streams := (streams boot)(1 \<mapsto> hello)\<rparr>"
    by (simp add: emit_def boot_stdout boot_bytes)
  have s: "streams boot 1 \<noteq> None" by (simp add: boot_def)
  show ?thesis
    using write_delegates [of capture 1 "0x402000" 13 boot 1] p
    by (simp add: capture_def e s word_sless_alt)
qed

text \<open>
  C8. On a kernel whose streams accept the full write, for every handle \<open>fd\<close> that
  identifies a stream and every address \<open>buf\<close>, the Output Primitive (\<open>write\<close> of
  hello_world.c, \<open>write_syscall\<close> of working_hello.c, \<open>sys_write\<close> of printf_stub.c) called
  with count 0 returns 0 and leaves every stream as it was.
\<close>

theorem write_zero_count:
  assumes "accepts_writes k" and "streams w fd \<noteq> None"
  shows "write_hello_world k fd buf 0 w = Returned 0 w
       \<and> write_syscall k fd buf 0 r w = Returned 0 w
       \<and> sys_write k fd buf 0 w = Returned 0 w"
proof -
  from assms(2) obtain old where old: "streams w fd = Some old" by auto
  have same: "w\<lparr>streams := (streams w)(fd \<mapsto> old)\<rparr> = w"
    using old by (simp add: map_upd_triv)
  show ?thesis
    using old same sle_0
    by (simp add: write_hello_world_def write_syscall_def sys_write_def syscall_def SYS_WRITE_def
        bytes_at_def trap_write_accepted [OF assms(1), where old = old])
qed

theorem write_zero_count_witness:
  "accepts_writes capture \<and> streams boot 2 \<noteq> None
     \<and> write_hello_world capture 2 0x402000 0 boot = Returned 0 boot
     \<and> write_syscall capture 2 0x402000 0 junk boot = Returned 0 boot
     \<and> sys_write capture 2 0x402000 0 boot = Returned 0 boot"
proof -
  have opn: "streams boot 2 \<noteq> None" by (simp add: boot_def)
  show ?thesis
    using write_zero_count [OF capture_accepts opn, where buf = "0x402000" and r = junk]
    by (simp add: capture_accepts opn)
qed

text \<open>
  Under the result convention alone, which allows the kernel to reject the request, a
  write of count 0 still makes nothing visible: it returns 0 or a negated error code.
\<close>

lemma zero_count_under_convention:
  assumes "write_convention k"
  shows "\<exists>res. write_hello_world k fd buf 0 w = Returned res w \<and> (res = 0 \<or> res <s 0)"
proof -
  let ?r = "\<lparr>rax = 1, rdi = scast fd, rsi = buf, rdx = 0\<rparr>"
  have op: "rax ?r = 1" by simp
  show ?thesis
    using assms [unfolded write_convention_def, rule_format, OF op, of w]
    by (cases "k ?r w")
      (auto simp add: write_hello_world_def syscall_def syscall_insn_def SYS_WRITE_def
        emit_nothing bytes_at_def unat_0_iff split: if_splits)
qed

section \<open>The hello programs from entry to exit\<close>

lemma main_hello_world_run:
  assumes "terminates_on_exit k" "accepts_writes k"
    and "bytes_at (memory w) p 13 = hello" "memory w (p + 13) = 0" "streams w 1 = Some []"
  shows "main_hello_world k p w = Exited 0 (w\<lparr>streams := (streams w)(1 \<mapsto> hello)\<rparr>)"
proof -
  have "strlen (memory w) p = Some 13"
    using strlen_c_string [OF hello_c_string [OF assms(3,4)]] by (simp add: hello_length)
  moreover have "write_hello_world k STDOUT_FILENO p 13 w =
      Returned 13 (w\<lparr>streams := (streams w)(1 \<mapsto> hello)\<rparr>)"
    using assms(3,5) sle_13
    by (simp add: write_hello_world_def syscall_def SYS_WRITE_def STDOUT_FILENO_def
        trap_write_accepted [OF assms(2), where old = "[]"])
  ultimately show ?thesis
    by (simp add: main_hello_world_def print_def exit_hello_world_halts [OF assms(1)])
qed

lemma main_inline_hello_run:
  assumes "terminates_on_exit k" "accepts_writes k"
    and "bytes_at (memory w) p 13 = hello" "streams w 1 = Some []"
  shows "main_inline_hello k p w = Exited 0 (w\<lparr>streams := (streams w)(1 \<mapsto> hello)\<rparr>)"
  using assms(3,4) sle_13
  by (simp add: main_inline_hello_def trap_write_accepted [OF assms(2), where old = "[]"]
      trap_exit [OF assms(1)])

lemma main_working_hello_run:
  assumes "terminates_on_exit k" "accepts_writes k"
    and "bytes_at (memory w) p 13 = hello" "streams w 1 = Some []"
  shows "main_working_hello k p r1 r2 w = Exited 0 (w\<lparr>streams := (streams w)(1 \<mapsto> hello)\<rparr>)"
  using assms(3,4) sle_13
  by (simp add: main_working_hello_def write_syscall_def
      trap_write_accepted [OF assms(2), where old = "[]"]
      exit_syscall_halts [OF assms(1)])

text \<open>
  C6. On a kernel whose exit operation ends the process and whose streams accept the
  full write, with the 13 bytes of \<open>"Hello World!\n"\<close> at the address the program uses
  and nothing yet on standard output, each hello program (\<open>main\<close> of hello_world.c, whose
  literal is null-terminated, of inline_hello.c and of working_hello.c) ends with exit
  status 0 and with exactly those 13 bytes on standard output; no other stream and no
  memory has changed.
\<close>

theorem hello_world_end_to_end:
  assumes "terminates_on_exit k" and "accepts_writes k"
    and "bytes_at (memory w) p 13 = hello" and "streams w 1 = Some []"
  shows "(memory w (p + 13) = 0 \<longrightarrow>
            main_hello_world k p w = Exited 0 (w\<lparr>streams := (streams w)(1 \<mapsto> hello)\<rparr>))
       \<and> main_inline_hello k p w = Exited 0 (w\<lparr>streams := (streams w)(1 \<mapsto> hello)\<rparr>)
       \<and> main_working_hello k p r1 r2 w = Exited 0 (w\<lparr>streams := (streams w)(1 \<mapsto> hello)\<rparr>)
       \<and> observed_status 0 = 0 \<and> length hello = 13"
  using assms
  by (simp add: main_hello_world_run main_inline_hello_run main_working_hello_run
      observed_status_def hello_length)

theorem hello_world_end_to_end_witness:
  "terminates_on_exit capture \<and> accepts_writes capture
     \<and> bytes_at (memory boot) 0x402000 13 = hello \<and> streams boot 1 = Some []
     \<and> memory boot (0x402000 + 13) = 0
     \<and> main_hello_world capture 0x402000 boot = Exited 0 (boot\<lparr>streams := (streams boot)(1 \<mapsto> hello)\<rparr>)
     \<and> main_inline_hello capture 0x402000 boot = Exited 0 (boot\<lparr>streams := (streams boot)(1 \<mapsto> hello)\<rparr>)
     \<and> main_working_hello capture 0x402000 junk junk boot
           = Exited 0 (boot\<lparr>streams := (streams boot)(1 \<mapsto> hello)\<rparr>)"
proof -
  have z: "memory boot (0x402000 + 13) = 0"
    by (simp add: boot_def hello_val)
  show ?thesis
    using hello_world_end_to_end [OF capture_terminates capture_accepts boot_bytes boot_stdout,
        of junk junk] z
    by (simp add: capture_terminates capture_accepts boot_bytes boot_stdout)
qed

section \<open>The formatted-output stub\<close>

lemma one_byte_convention: "write_convention one_byte"
  by (auto simp add: write_convention_def one_byte_def emit_nothing bytes_at_def word_sless_alt
      word_sle_eq unat_0_iff Suc_le_eq unat_gt_0)

lemma bytes_at_take: "j \<le> n \<Longrightarrow> bytes_at m p j = take j (bytes_at m p n)"
  by (simp add: bytes_at_def take_map)

lemma printf_one_request:
  assumes "c_string (memory w) format bs"
  shows "printf k format args w =
           (case k \<lparr>rax = 1, rdi = 1, rsi = format, rdx = of_nat (length bs)\<rparr> w of
              Resume res w' \<Rightarrow>
                (case my_strlen (memory w') format of
                   None \<Rightarrow> Diverged
                 | Some n' \<Rightarrow> Returned (ucast n') w')
            | Halt st w' \<Rightarrow> Exited st w')"
  using my_strlen_c_string [OF assms]
  by (simp add: printf_def sys_write_def syscall_insn_def SYS_WRITE_def split: trap.split)

text \<open>
  Under the platform's result convention the kernel may transfer any part of the one
  request, or reject it: what \<open>printf\<close> leaves on standard output is a prefix of the
  format string.
\<close>

lemma printf_prefix:
  assumes "c_string (memory w) format bs" and "write_convention k"
  shows "\<exists>m\<le>length bs. printf k format args w = Returned (of_nat (length bs)) (emit w 1 (take m bs))"
proof -
  let ?L = "length bs"
  let ?r = "\<lparr>rax = 1, rdi = 1, rsi = format, rdx = of_nat ?L\<rparr>"
  have len: "my_strlen (memory w) format = Some (of_nat ?L)"
    by (rule my_strlen_c_string [OF assms(1)])
  have bytes: "bytes_at (memory w) format ?L = bs"
    using assms(1) by (simp add: c_string_def)
  have L: "unat (of_nat ?L :: u64) = ?L"
    using c_string_length [OF assms(1)] by (simp add: unat_of_nat)
  have op: "rax ?r = 1" by simp
  note conv = assms(2) [unfolded write_convention_def, rule_format, OF op, of w]
  show ?thesis
  proof (cases "k ?r w")
    case (Halt st w')
    with conv show ?thesis by simp
  next
    case (Resume res w')
    show ?thesis
    proof (cases "res <s 0")
      case True
      with conv Resume have "w' = w" by simp
      with Resume len have "printf k format args w = Returned (of_nat ?L) (emit w 1 (take 0 bs))"
        by (simp add: printf_one_request [OF assms(1)] ucast_of_nat_int emit_nothing)
      then show ?thesis by blast
    next
      case False
      with conv Resume have le: "unat res \<le> ?L"
        and w': "w' = emit w 1 (bytes_at (memory w) format (unat res))"
        by (simp_all add: L)
      have "bytes_at (memory w) format (unat res) = take (unat res) bs"
        using bytes_at_take [OF le, of "memory w" format] bytes by simp
      with w' have "w' = emit w 1 (take (unat res) bs)" by simp
      with Resume len have "printf k format args w
          = Returned (of_nat ?L) (emit w 1 (take (unat res) bs))"
        by (simp add: printf_one_request [OF assms(1)] ucast_of_nat_int)
      with le show ?thesis by blast
    qed
  qed
qed

lemma printf_full_write:
  assumes "accepts_writes k" and "c_string (memory w) format bs" and "length bs < 2 ^ 63"
    and "streams w 1 = Some old"
  shows "printf k format args w =
           Returned (of_nat (length bs)) (w\<lparr>streams := (streams w)(1 \<mapsto> old @ bs)\<rparr>)"
proof -
  have len: "my_strlen (memory w) format = Some (of_nat (length bs))"
    by (rule my_strlen_c_string [OF assms(2)])
  have bytes: "bytes_at (memory w) format (length bs) = bs"
    using assms(2) by (simp add: c_string_def)
  have wr: "sys_write k 1 format (of_nat (length bs)) w =
      Returned (of_nat (length bs)) (w\<lparr>streams := (streams w)(1 \<mapsto> old @ bs)\<rparr>)"
    using assms(4) of_nat_nonneg [OF assms(3)] bytes
    by (simp add: sys_write_def SYS_WRITE_def unat_of_nat_63 [OF assms(3)]
        trap_write_accepted [OF assms(1), where old = old])
  show ?thesis
    using len by (simp add: printf_def wr ucast_of_nat_int)
qed

text \<open>
  C9, as stated, fails where the kernel does not take the whole request: \<open>printf\<close> traps
  once, drops the result and does not retry. With the format \<open>"%d\n"\<close>, on a kernel that
  transfers one byte of the request only \<open>%\<close> reaches standard output, and with standard
  output closed nothing does; \<open>printf\<close> returns 3 both times.
\<close>

theorem printf_short_write_counterexample:
  "c_string (memory boot) 0x402010 [37, 100, 10]
     \<and> streams boot 1 = Some []
     \<and> printf one_byte 0x402010 [5] boot = Returned 3 (boot\<lparr>streams := (streams boot)(1 \<mapsto> [37])\<rparr>)
     \<and> printf capture 0x402010 [5] closed = Returned 3 closed"
proof -
  have c: "c_string (memory closed) 0x402010 [37, 100, 10]"
    using boot_format by (simp add: closed_def)
  have len: "my_strlen (memory boot) 0x402010 = Some 3"
    using my_strlen_c_string [OF boot_format] by simp
  have len': "my_strlen (memory closed) 0x402010 = Some 3"
    using my_strlen_c_string [OF c] by simp
  have k1: "one_byte \<lparr>rax = 1, rdi = 1, rsi = 0x402010, rdx = 3\<rparr> boot
      = Resume 1 (boot\<lparr>streams := (streams boot)(1 \<mapsto> [37])\<rparr>)"
    by (simp add: one_byte_def boot_def emit_def bytes_at_def)
  have k2: "capture \<lparr>rax = 1, rdi = 1, rsi = 0x402010, rdx = 3\<rparr> closed = Resume (- 9) closed"
    by (simp add: capture_def closed_def)
  have p1: "printf one_byte 0x402010 [5] boot
      = Returned 3 (boot\<lparr>streams := (streams boot)(1 \<mapsto> [37])\<rparr>)"
    using len by (simp add: printf_def sys_write_def syscall_insn_def SYS_WRITE_def k1)
  have p2: "printf capture 0x402010 [5] closed = Returned 3 closed"
    using len' by (simp add: printf_def sys_write_def syscall_insn_def SYS_WRITE_def k2)
  show ?thesis
    by (simp add: boot_format boot_stdout p1 p2)
qed

text \<open>
  C9, amended. For every null-terminated format string and whatever the variadic
  arguments, \<open>printf\<close> hands the format string verbatim to the kernel, in one write
  request for standard output that covers every byte up to the null terminator:
  placeholders are bytes like any other, and the arguments are not read. What reaches
  standard output is what the kernel transfers for that one request: a prefix of the
  format string under the platform's result convention, and the whole format string
  where the stream accepts the full write (the bound \<open>2\<^sup>6\<^sup>3\<close> keeps the count
  non-negative as a signed word).
\<close>

theorem printf_requests_format_verbatim:
  assumes "c_string (memory w) format bs"
  shows "printf k format args w =
           (case k \<lparr>rax = 1, rdi = 1, rsi = format, rdx = of_nat (length bs)\<rparr> w of
              Resume res w' \<Rightarrow>
                (case my_strlen (memory w') format of
                   None \<Rightarrow> Diverged
                 | Some n' \<Rightarrow> Returned (ucast n') w')
            | Halt st w' \<Rightarrow> Exited st w')
       \<and> (write_convention k \<longrightarrow>
            (\<exists>m\<le>length bs. printf k format args w
                 = Returned (of_nat (length bs)) (emit w 1 (take m bs))))
       \<and> (accepts_writes k \<and> streams w 1 = Some old \<and> length bs < 2 ^ 63 \<longrightarrow>
            printf k format args w
              = Returned (of_nat (length bs)) (w\<lparr>streams := (streams w)(1 \<mapsto> old @ bs)\<rparr>))"
  using printf_one_request [OF assms, of k args] printf_prefix [OF assms, of k args]
    printf_full_write [of k w format bs old args] assms
  by blast

theorem printf_requests_format_verbatim_witness:
  "c_string (memory boot) 0x402010 [37, 100, 10]
     \<and> write_convention capture
     \<and> accepts_writes capture \<and> streams boot 1 = Some [] \<and> length [37, 100, 10 :: u8] < 2 ^ 63
     \<and> capture \<lparr>rax = 1, rdi = 1, rsi = 0x402010, rdx = 3\<rparr> boot
          = Resume 3 (boot\<lparr>streams := (streams boot)(1 \<mapsto> [37, 100, 10])\<rparr>)
     \<and> printf capture 0x402010 [5] boot =
         Returned 3 (boot\<lparr>streams := (streams boot)(1 \<mapsto> [37, 100, 10])\<rparr>)"
proof -
  have l: "length [37, 100, 10 :: u8] < 2 ^ 63" by simp
  have k: "capture \<lparr>rax = 1, rdi = 1, rsi = 0x402010, rdx = 3\<rparr> boot
          = Resume 3 (boot\<lparr>streams := (streams boot)(1 \<mapsto> [37, 100, 10])\<rparr>)"
    by (simp add: capture_def boot_def emit_def bytes_at_def upt_rec word_sless_alt)
  have h: "accepts_writes capture \<and> streams boot 1 = Some []
      \<and> length [37, 100, 10 :: u8] < 2 ^ 63"
    by (simp add: capture_accepts boot_stdout)
  have "printf capture 0x402010 [5] boot
      = Returned (of_nat (length [37, 100, 10 :: u8]))
          (boot\<lparr>streams := (streams boot)(1 \<mapsto> [] @ [37, 100, 10])\<rparr>)"
    using printf_requests_format_verbatim [OF boot_format, of capture "[5]" "[]"] h by blast
  then show ?thesis
    by (simp add: capture_accepts capture_convention boot_format boot_stdout k)
qed

lemma long_image_nonzero: "\<forall>i<2147483648. memory long_image (0 + of_nat i) \<noteq> 0"
proof (intro allI impI)
  fix i :: nat assume i: "i < 2147483648"
  have "(of_nat i :: u64) \<noteq> 2147483648"
  proof
    assume "(of_nat i :: u64) = 2147483648"
    then have "unat (of_nat i :: u64) = unat (2147483648 :: u64)" by simp
    with i show False by (simp add: unat_of_nat)
  qed
  then show "memory long_image (0 + of_nat i) \<noteq> 0" by (simp add: long_image_def)
qed

lemma long_image_strlen: "my_strlen (memory long_image) 0 = Some 2147483648"
proof -
  have z: "memory long_image (0 + of_nat 2147483648) = 0" by (simp add: long_image_def)
  show ?thesis
    using my_strlen_loop_first_zero [of 2147483648 "memory long_image" 0 0, OF long_image_nonzero z]
    by (simp add: my_strlen_def)
qed

text \<open>
  C10, as stated, fails for a format string of \<open>2\<^sup>3\<^sup>1\<close> bytes: \<open>my_strlen\<close> returns
  2147483648, and \<open>printf\<close>, whose result is an \<open>int\<close>, returns -2147483648.
\<close>

theorem printf_long_format_counterexample:
  "my_strlen (memory long_image) 0 = Some 2147483648
     \<and> returned_value (printf capture 0 [] long_image) = Some (- 2147483648)
     \<and> sint (- 2147483648 :: int32) = - 2147483648"
proof -
  obtain res w' where wr: "sys_write capture 1 0 2147483648 long_image = Returned res w'"
    and mem: "memory w' = memory long_image"
    using sys_write_returns [OF capture_returns] by blast
  have "printf capture 0 [] long_image = Returned (ucast (2147483648 :: u64)) w'"
    using long_image_strlen by (simp add: printf_def wr mem)
  then show ?thesis using long_image_strlen by simp
qed

text \<open>
  C10, amended. For every null-terminated format string, \<open>printf\<close> returns
  \<open>my_strlen(format)\<close> converted to \<open>int\<close> (its low 32 bits: the length itself when that
  is below \<open>2\<^sup>3\<^sup>1\<close>), whatever the underlying write returns: on every kernel whose write
  operation resumes the process and leaves its memory alone, be the result a count, a
  smaller count or a negated error code, the value of \<open>sys_write\<close> is discarded.
\<close>

theorem printf_returns_converted_length:
  assumes "write_returns k" and "c_string (memory w) format bs"
  shows "returned_value (printf k format args w) = Some (of_nat (length bs))
       \<and> (length bs < 2 ^ 31 \<longrightarrow> sint (of_nat (length bs) :: int32) = int (length bs))"
proof -
  have len: "my_strlen (memory w) format = Some (of_nat (length bs))"
    by (rule my_strlen_c_string [OF assms(2)])
  obtain res w' where wr: "sys_write k 1 format (of_nat (length bs)) w = Returned res w'"
    and mem: "memory w' = memory w"
    using sys_write_returns [OF assms(1)] by blast
  have "printf k format args w = Returned (of_nat (length bs)) w'"
    using len by (simp add: printf_def wr mem ucast_of_nat_int)
  moreover have "length bs < 2 ^ 31 \<longrightarrow> sint (of_nat (length bs) :: int32) = int (length bs)"
    by (simp add: signed_of_nat signed_take_bit_int_eq_self)
  ultimately show ?thesis by simp
qed

theorem printf_returns_converted_length_witness:
  "write_returns capture \<and> c_string (memory boot) 0x402010 [37, 100, 10]
     \<and> sys_write capture 1 0x402010 3 boot
          = Returned 3 (boot\<lparr>streams := (streams boot)(1 \<mapsto> [37, 100, 10])\<rparr>)
     \<and> returned_value (printf capture 0x402010 [] boot) = Some 3
     \<and> c_string (memory closed) 0x402010 [37, 100, 10]
     \<and> sys_write capture 1 0x402010 3 closed = Returned (- 9) closed
     \<and> returned_value (printf capture 0x402010 [] closed) = Some 3
     \<and> length [37, 100, 10 :: u8] < 2 ^ 31 \<and> sint (3 :: int32) = 3"
proof -
  have c: "c_string (memory closed) 0x402010 [37, 100, 10]"
    using boot_format by (simp add: closed_def)
  have w1: "sys_write capture 1 0x402010 3 boot
          = Returned 3 (boot\<lparr>streams := (streams boot)(1 \<mapsto> [37, 100, 10])\<rparr>)"
    by (simp add: sys_write_def SYS_WRITE_def syscall_insn_def capture_def boot_def emit_def
        bytes_at_def upt_rec word_sless_alt)
  have w2: "sys_write capture 1 0x402010 3 closed = Returned (- 9) closed"
    by (simp add: sys_write_def SYS_WRITE_def syscall_insn_def capture_def closed_def)
  show ?thesis
    using printf_returns_converted_length [OF capture_returns boot_format, of "[]"]
      printf_returns_converted_length [OF capture_returns c, of "[]"]
    by (simp add: capture_returns boot_format c w1 w2)
qed

section \<open>The Syscall Trampoline\<close>

text \<open>
  C4, as stated, fails for the exit request: the trampoline called with the operation
  code 60 yields no result at all, the process ends inside the call.
\<close>

theorem syscall_exit_counterexample:
  "syscall capture SYS_EXIT 0 0 0 boot = Exited 0 boot
     \<and> \<not> returns (syscall capture SYS_EXIT 0 0 0 boot)"
  by (simp add: syscall_def syscall_insn_def capture_def SYS_EXIT_def)

text \<open>
  C4, amended. Every invocation of the Syscall Trampoline either ends the process or
  returns exactly the one machine word the kernel produced: it raises no error of its
  own and never runs into undefined behaviour or a loop. For a write request, under the
  platform's result convention, that word is either in the reserved negative range (a
  negated error code, and nothing was transferred) or non-negative (the number of bytes
  transferred, at most the count).
\<close>

theorem syscall_result_convention:
  "syscall k number a1 a2 a3 w =
     (case k \<lparr>rax = number, rdi = a1, rsi = a2, rdx = a3\<rparr> w of
        Resume res w' \<Rightarrow> Returned res w'
      | Halt st w' \<Rightarrow> Exited st w')
   \<and> syscall k number a1 a2 a3 w \<noteq> Undefined
   \<and> syscall k number a1 a2 a3 w \<noteq> Diverged
   \<and> (write_convention k \<longrightarrow>
        (case write_hello_world k fd buf n w of
           Returned res w' \<Rightarrow>
             if res <s 0 then - 4095 \<le>s res \<and> w' = w
             else unat res \<le> unat n \<and> w' = emit w fd (bytes_at (memory w) buf (unat res))
         | Exited st w' \<Rightarrow> False
         | Undefined \<Rightarrow> False
         | Diverged \<Rightarrow> False))"
proof -
  let ?r = "\<lparr>rax = 1, rdi = scast fd, rsi = buf, rdx = n\<rparr>"
  have a: "syscall k number a1 a2 a3 w =
     (case k \<lparr>rax = number, rdi = a1, rsi = a2, rdx = a3\<rparr> w of
        Resume res w' \<Rightarrow> Returned res w'
      | Halt st w' \<Rightarrow> Exited st w')" for number a1 a2 a3
    by (simp add: syscall_def syscall_insn_def split: trap.split)
  have b: "syscall k number a1 a2 a3 w \<noteq> Undefined \<and> syscall k number a1 a2 a3 w \<noteq> Diverged"
    by (simp add: a split: trap.split)
  have c: "case write_hello_world k fd buf n w of
           Returned res w' \<Rightarrow>
             if res <s 0 then - 4095 \<le>s res \<and> w' = w
             else unat res \<le> unat n \<and> w' = emit w fd (bytes_at (memory w) buf (unat res))
         | Exited st w' \<Rightarrow> False
         | Undefined \<Rightarrow> False
         | Diverged \<Rightarrow> False" if "write_convention k"
  proof -
    have op: "rax ?r = 1" by simp
    show ?thesis
      using that [unfolded write_convention_def, rule_format, OF op, of w]
      by (cases "k ?r w") (simp_all add: write_hello_world_def a SYS_WRITE_def split: if_splits)
  qed
  show ?thesis using a b c by blast
qed

theorem syscall_result_convention_witness:
  "write_convention capture
     \<and> syscall capture 1 1 0x402000 13 boot
          = Returned 13 (boot\<lparr>streams := (streams boot)(1 \<mapsto> hello)\<rparr>)
     \<and> write_hello_world capture 1 0x402000 13 boot
          = Returned 13 (emit boot 1 (bytes_at (memory boot) 0x402000 13))
     \<and> write_hello_world capture 7 0x402000 13 boot = Returned (- 9) boot
     \<and> (- 9 :: u64) <s 0 \<and> - 4095 \<le>s (- 9 :: u64)"
proof -
  have e: "emit boot 1 (bytes_at (memory boot) 0x402000 13)
      = boot\<lparr>streams := (streams boot)(1 \<mapsto> hello)\<rparr>"
    by (simp add: emit_def boot_stdout boot_bytes)
  have s: "streams boot 7 = None" "streams boot 1 \<noteq> None"
    by (simp_all add: boot_def)
  show ?thesis
    using syscall_result_convention [of capture 1 1 "0x402000" 13 boot 1 "0x402000" 13]
      syscall_result_convention [of capture 1 1 "0x402000" 13 boot 7 "0x402000" 13]
    by (simp add: capture_convention capture_def e s write_hello_world_def syscall_def
        syscall_insn_def SYS_WRITE_def word_sless_alt word_sle_eq)
qed

end
